theory Spec2Isabelle
  imports Complex_Main "HOL-Library.Sublist"
begin

section \<open>Numbers\<close>

text \<open>
  \<open>round(x, d)\<close> and the format specifications \<open>:.2f\<close>, \<open>:.3f\<close> round the exact
  value of \<open>x\<close> to \<open>d\<close> decimals, a tie going to the even neighbour.
\<close>

definition py_round :: "nat \<Rightarrow> rat \<Rightarrow> rat" where
  "py_round d x =
     (let scaled = x * 10 ^ d;
          n = \<lfloor>scaled\<rfloor>;
          r = scaled - of_int n
      in of_int (if r < 1/2 then n else if 1/2 < r then n + 1
                 else if even n then n else n + 1) / 10 ^ d)"

text \<open>
  A Python float is a binary64 number, here the rational it denotes. \<open>fl x\<close> is the
  float nearest to \<open>x\<close>: \<open>x\<close> rounded to 53 significant bits, a tie going to the even
  significand. It is the value of a decimal literal (\<open>0.05\<close> is \<open>fl (1/20)\<close>) and of
  every arithmetic operation on floats (\<open>a + b\<close> is \<open>fl (a + b)\<close>). Overflow and
  subnormal numbers are not modelled: the cut points lie between 0.001 and 1. The
  planner of the cut points, which compares its results for equality, is modelled with
  this rounding; the durations of the later stages, which are only compared with
  thresholds, are computed exactly.

  \<open>exponent x\<close> is the \<open>e\<close> with \<open>2 ^ e \<le> |x| < 2 ^ (e + 1)\<close>, and \<open>bit_length\<close> is
  \<open>int.bit_length\<close>.
\<close>

fun bit_length :: "nat \<Rightarrow> nat" where
  "bit_length n = (if n = 0 then 0 else Suc (bit_length (n div 2)))"

definition exponent :: "rat \<Rightarrow> int" where
  "exponent x =
     (if 1 \<le> \<bar>x\<bar> then int (bit_length (nat \<lfloor>\<bar>x\<bar>\<rfloor>)) - 1
      else - int (bit_length (nat (\<lceil>1 / \<bar>x\<bar>\<rceil> - 1))))"

definition fl :: "rat \<Rightarrow> rat" where
  "fl x =
     (if x = 0 then 0
      else let ulp = 2 powi (exponent x - 52);
               scaled = x / ulp;
               n = \<lfloor>scaled\<rfloor>;
               r = scaled - of_int n
           in of_int (if r < 1/2 then n else if 1/2 < r then n + 1
                      else if even n then n else n + 1) * ulp)"

text \<open>
  \<open>round(x, d)\<close> of a float is again a float: the one nearest to the decimal that
  \<open>py_round\<close> gives.
\<close>

definition round_float :: "nat \<Rightarrow> rat \<Rightarrow> rat" where
  "round_float d x = fl (py_round d x)"

section \<open>Configuration\<close>

text \<open>
  The class \<open>Config\<close>: the settings the pipeline reads. A folder is the list of the
  components of its path.
\<close>

record config =
  INPUT_FOLDER :: "string list"
  CUSTOM_OUTPUT_PATH :: "string list option"
  CREATE_WEBP_PREVIEW :: bool
  CREATE_WEBP_PREVIEW_SHEET :: bool
  CREATE_IMAGE_PREVIEW_SHEET :: bool
  NUM_OF_SEGMENTS :: int
  SEGMENT_DURATION :: rat
  ADD_BLACK_BARS :: bool
  GRID_WIDTH :: int
  TIMESTAMPS_MODE :: int
  IMAGE_SHEET_FORMAT :: string
  KEEP_TEMP_FILES :: bool
  IGNORE_EXISTING :: bool
  PRINT_CUT_POINTS :: bool
  CONFIRM_CUT_POINTS_REQUIRED :: bool
  BLACKLISTED_CUT_POINTS :: "rat list"

text \<open>The class attributes as the script ships them.\<close>

definition default_config :: config where
  "default_config =
     \<lparr> INPUT_FOLDER = [''G:'', ''temp6''], CUSTOM_OUTPUT_PATH = None,
       CREATE_WEBP_PREVIEW = True, CREATE_WEBP_PREVIEW_SHEET = True,
       CREATE_IMAGE_PREVIEW_SHEET = True, NUM_OF_SEGMENTS = 16, SEGMENT_DURATION = 3/2,
       ADD_BLACK_BARS = False, GRID_WIDTH = 4, TIMESTAMPS_MODE = 2,
       IMAGE_SHEET_FORMAT = ''PNG'', KEEP_TEMP_FILES = False, IGNORE_EXISTING = True,
       PRINT_CUT_POINTS = False, CONFIRM_CUT_POINTS_REQUIRED = False,
       BLACKLISTED_CUT_POINTS = [] \<rparr>"

section \<open>Errors\<close>

text \<open>
  \<open>ValueError\<close> is what \<open>min\<close> raises on an empty set. \<open>run\<close> catches every
  exception of its \<open>try\<close> block.
\<close>

datatype error = ValueError

section \<open>Cut points: \<open>VideoProcessor._generate_cut_points\<close>\<close>

text \<open>
  The set \<open>points\<close> is a list without repetitions: \<open>points.add(p)\<close> is
  \<open>List.insert p points\<close>, \<open>len(points)\<close> its length. The blacklist is tested on
  \<open>start_pct\<close> and \<open>end_pct\<close> as they are; what is added is their rounding.
\<close>

definition boundary_points :: "rat list \<Rightarrow> rat \<Rightarrow> rat \<Rightarrow> rat list" where
  "boundary_points blacklist start_pct end_pct =
     (let points = [];
          points = (if start_pct \<notin> set blacklist
                    then List.insert (round_float 3 start_pct) points else points);
          points = (if end_pct \<notin> set blacklist
                    then List.insert (round_float 3 end_pct) points else points)
      in points)"

definition inner_point :: "rat \<Rightarrow> rat \<Rightarrow> rat \<Rightarrow> nat \<Rightarrow> rat" where
  "inner_point current_start current_end step i =
     (let point = round_float 3 (fl (current_start + fl (step * of_nat i)))
      in max (fl (current_start + fl (1/1000)))
             (min (fl (current_end - fl (1/1000))) point))"

definition add_inner_point ::
  "rat list \<Rightarrow> rat \<Rightarrow> rat \<Rightarrow> rat \<Rightarrow> nat \<Rightarrow> rat list \<Rightarrow> rat list" where
  "add_inner_point blacklist current_start current_end step i points =
     (let point = inner_point current_start current_end step i
      in if point \<notin> set blacklist then List.insert point points else points)"

text \<open>\<open>for i in range(1, num_inner_points + 1)\<close>.\<close>

definition add_inner_points ::
  "rat list \<Rightarrow> rat \<Rightarrow> rat \<Rightarrow> int \<Rightarrow> rat list \<Rightarrow> rat list" where
  "add_inner_points blacklist current_start current_end num_inner_points points =
     (let step = fl (fl (current_end - current_start) / (of_int num_inner_points + 1))
      in fold (add_inner_point blacklist current_start current_end step)
              [1 ..< nat num_inner_points + 1] points)"

text \<open>
  The \<open>while\<close> loop, by recursion on \<open>retries\<close>. \<open>valid_points\<close> is empty at every
  test of the loop condition (it is assigned right before \<open>break\<close>), so the condition
  is \<open>0 < num_points and retries > 0\<close>. The result is \<open>Inr None\<close> for a
  \<open>return []\<close> inside the loop, \<open>Inr (Some valid_points)\<close> when the loop is left, and
  \<open>Inl ValueError\<close> when \<open>min(points)\<close> is taken of the empty set.
\<close>

fun cut_points_loop ::
  "int \<Rightarrow> rat list \<Rightarrow> nat \<Rightarrow> rat \<Rightarrow> rat \<Rightarrow> error + rat list option" where
  "cut_points_loop num_points blacklist 0 start_pct end_pct = Inr (Some [])"
| "cut_points_loop num_points blacklist (Suc retries) start_pct end_pct =
     (if \<not> 0 < num_points then Inr (Some [])
      else
        let points = boundary_points blacklist start_pct end_pct in
        if length points < 2 \<and> 2 \<le> num_points then
          (let start_pct = fl (start_pct + fl (1/100));
               end_pct = fl (end_pct - fl (1/100))
           in if end_pct \<le> start_pct then Inr None
              else cut_points_loop num_points blacklist retries start_pct end_pct)
        else if points = [] then Inl ValueError
        else
          let current_start = Min (set points);
              current_end = Max (set points);
              num_inner_points = num_points - int (length points)
          in
          if 0 < num_inner_points \<and> current_end = current_start then Inr None
          else
            let points = (if 0 < num_inner_points
                          then add_inner_points blacklist current_start current_end
                                 num_inner_points points
                          else points)
            in
            if int (length points) < num_points then
              (let start_pct = fl (start_pct + fl (1/200));
                   end_pct = fl (end_pct - fl (1/200))
               in if end_pct \<le> start_pct then Inr None
                  else cut_points_loop num_points blacklist retries start_pct end_pct)
            else Inr (Some (sort points)))"

text \<open>
  \<open>duration\<close> is \<open>self.metadata.get("duration", 0)\<close>; \<open>user_confirms\<close> says whether
  the answer to the prompt "Use these cut points?" is \<open>yes\<close> or \<open>y\<close> (an \<open>EOFError\<close>
  counts as no). The prompt is only reached when confirmation is configured.
\<close>

definition generate_cut_points :: "config \<Rightarrow> rat \<Rightarrow> bool \<Rightarrow> error + rat list" where
  "generate_cut_points cfg duration user_confirms =
     (if \<not> 0 < duration then Inr []
      else
        case cut_points_loop (NUM_OF_SEGMENTS cfg) (BLACKLISTED_CUT_POINTS cfg) 2
               (fl (1/20)) (fl (49/50)) of
          Inl e \<Rightarrow> Inl e
        | Inr None \<Rightarrow> Inr []
        | Inr (Some valid_points) \<Rightarrow>
            if int (length valid_points) < NUM_OF_SEGMENTS cfg then Inr []
            else if CONFIRM_CUT_POINTS_REQUIRED cfg \<and> \<not> user_confirms then Inr []
            else Inr valid_points)"

section \<open>Text and paths\<close>

text \<open>
  A path is the list of its components; \<open>p / name\<close> is \<open>p @ [name]\<close>. \<open>resolve\<close>
  is the identity, and only files are modelled, not directories.
\<close>

type_synonym path = "string list"

definition name_of :: "path \<Rightarrow> string" where
  "name_of p = (if p = [] then [] else last p)"

definition with_name :: "path \<Rightarrow> string \<Rightarrow> path" where
  "with_name p n = butlast p @ [n]"

definition digit_char :: "nat \<Rightarrow> char" where
  "digit_char n = ''0123456789'' ! (n mod 10)"

function show_nat :: "nat \<Rightarrow> string" where
  "show_nat n = (if n < 10 then [digit_char n] else show_nat (n div 10) @ [digit_char n])"
  by pat_completeness auto
termination
  by (relation "measure id") auto

text \<open>The format specification \<open>:0wd\<close> of a number that is not negative.\<close>

definition zero_pad :: "nat \<Rightarrow> nat \<Rightarrow> string" where
  "zero_pad w n = replicate (w - length (show_nat n)) (CHR ''0'') @ show_nat n"

definition replace_char :: "char \<Rightarrow> string \<Rightarrow> string \<Rightarrow> string" where
  "replace_char c new s = concat (map (\<lambda>x. if x = c then new else [x]) s)"

text \<open>
  \<open>format_duration\<close>: a \<open>timedelta\<close> of \<open>int(round(seconds))\<close> seconds keeps
  \<open>days = n div 86400\<close> and \<open>seconds = n mod 86400\<close>; the days are added to the hours
  only when positive.
\<close>

definition format_duration :: "rat \<Rightarrow> string" where
  "format_duration seconds =
     (let n = \<lfloor>py_round 0 seconds\<rfloor>;
          days = n div 86400;
          td_seconds = n mod 86400;
          hours = td_seconds div 3600;
          remainder = td_seconds mod 3600;
          minutes = remainder div 60;
          secs = remainder mod 60;
          hours = (if 0 < days then hours + days * 24 else hours)
      in zero_pad 2 (nat hours) @ '':'' @ zero_pad 2 (nat minutes) @ '':'' @ zero_pad 2 (nat secs))"

section \<open>The outside world\<close>

text \<open>
  Every \<open>run_command\<close> of the script is a \<open>command\<close>: a call of \<open>ffprobe\<close> or
  \<open>ffmpeg\<close> with the arguments that matter. \<open>Extract_Segment video start t vf out\<close>
  is the trim of \<open>-t t\<close> seconds from \<open>-ss start\<close>; \<open>t\<close> is the duration as the
  command line carries it, formatted with \<open>:.3f\<close>.
\<close>

datatype axis = Horizontal | Vertical

datatype command =
    Probe_Rotation path
  | Probe_Streams path
  | Extract_Segment path rat rat string path
  | Probe_Duration path
  | Overlay_Text path string path
  | Concat path path
  | Encode_Webp path string path
  | Still_Video path rat rat path
  | Probe_Clip path
  | Black_Clip int int rat rat path
  | Reencode path path
  | Probe_Size path
  | Stack axis "path list" int int rat path
  | Downscale path path
  | Grab_Frame rat path path

text \<open>The file a command writes, if any.\<close>

fun output_of :: "command \<Rightarrow> path option" where
  "output_of (Probe_Rotation _) = None"
| "output_of (Probe_Streams _) = None"
| "output_of (Extract_Segment _ _ _ _ out) = Some out"
| "output_of (Probe_Duration _) = None"
| "output_of (Overlay_Text _ _ out) = Some out"
| "output_of (Concat _ out) = Some out"
| "output_of (Encode_Webp _ _ out) = Some out"
| "output_of (Still_Video _ _ _ out) = Some out"
| "output_of (Probe_Clip _) = None"
| "output_of (Black_Clip _ _ _ _ out) = Some out"
| "output_of (Reencode _ out) = Some out"
| "output_of (Probe_Size _) = None"
| "output_of (Stack _ _ _ _ _ out) = Some out"
| "output_of (Downscale _ out) = Some out"
| "output_of (Grab_Frame _ _ out) = Some out"

text \<open>
  Standard output is modelled after lexing, one token per line: an integer numeral, a
  decimal numeral, a ratio \<open>num/den\<close>, a size \<open>WxH\<close>, or any other text. \<open>int\<close>
  accepts only an integer numeral, \<open>float\<close> both numerals.
\<close>

datatype token = Integer int | Decimal rat | Ratio int int | Size int int | Word string

text \<open>
  What a command answers: its exit code, its standard output, and the size of its
  output file afterwards (\<open>None\<close> when the file does not exist).
\<close>

record reply =
  exit_code :: int
  stdout :: "token list"
  output_size :: "nat option"

text \<open>
  The state the pipeline changes: the files that exist, with their sizes, and the
  commands run so far, oldest first.
\<close>

record state =
  files :: "path \<Rightarrow> nat option"
  calls :: "command list"

definition file_exists :: "state \<Rightarrow> path \<Rightarrow> bool" where
  "file_exists st p \<longleftrightarrow> files st p \<noteq> None"

definition size_of :: "state \<Rightarrow> path \<Rightarrow> nat" where
  "size_of st p = (case files st p of None \<Rightarrow> 0 | Some n \<Rightarrow> n)"

text \<open>\<open>Path.unlink(missing_ok=True)\<close>.\<close>

definition unlink :: "path \<Rightarrow> state \<Rightarrow> state" where
  "unlink p st = st\<lparr>files := (files st)(p := None)\<rparr>"

text \<open>
  The world answers each command; the same command gets the same answer. The other
  fields are what the script reads from the machine outside \<open>run_command\<close>:
  whether the font file exists; the answer typed at a prompt, stripped and in lower
  case, by the text that names the prompt (\<open>None\<close> is \<open>EOFError\<close>); whether
  \<open>unlink\<close>, \<open>mkdir\<close>, \<open>shutil.move\<close>, writing a text file or saving the sheet
  image raises; what \<open>json.loads\<close> makes of the probe's output (\<open>None\<close> when it
  raises); the size Pillow reports of an image file (\<open>None\<close> when it cannot be opened);
  and whether loading the font, drawing or saving the info image raises.
\<close>

record stream_info =
  has_video_stream :: bool
  format_duration_seconds :: "rat option"
  stream_width :: int
  stream_height :: int
  video_codec :: string
  frame_rate :: token

record world =
  respond :: "command \<Rightarrow> reply"
  font_is_file :: bool
  prompt_answer :: "string \<Rightarrow> string option"
  unlink_fails :: "path \<Rightarrow> bool"
  mkdir_fails :: "path \<Rightarrow> bool"
  move_fails :: bool
  write_fails :: "path \<Rightarrow> bool"
  save_fails :: "path \<Rightarrow> bool"
  streams_json :: "stream_info option"
  image_size :: "path \<Rightarrow> (int \<times> int) option"
  info_image_fails :: bool

definition run_command :: "world \<Rightarrow> command \<Rightarrow> state \<Rightarrow> reply \<times> state" where
  "run_command w c st =
     (let r = respond w c;
          fs = (case output_of c of
                  None \<Rightarrow> files st
                | Some out \<Rightarrow> (files st)(out := output_size r))
      in (r, st\<lparr>files := fs, calls := calls st @ [c]\<rparr>))"

section \<open>The processor\<close>

text \<open>
  The attributes of a \<open>VideoProcessor\<close> that the pipeline reads; \<open>md_duration\<close> and
  \<open>md_fps\<close> are \<open>metadata["duration"]\<close> and \<open>metadata["fps"]\<close>.
\<close>

record processor =
  original_video_path :: path
  video_path :: path
  self_config :: config
  base_filename :: string
  output_dir :: path
  temp_dir :: path
  md_duration :: rat
  md_fps :: rat
  is_vertical :: bool
  cut_points_sec :: "rat list"
  segment_files :: "path list"
  timestamped_segment_files :: "path list"
  segment_frame_files :: "path list"

section \<open>Segments: \<open>_get_vf_filter\<close>, \<open>_verify_segment\<close>, \<open>_overlay_timestamp\<close>, \<open>_generate_segments\<close>\<close>

definition get_vf_filter :: "processor \<Rightarrow> string" where
  "get_vf_filter self =
     (if is_vertical self then
        (if ADD_BLACK_BARS (self_config self)
         then ''scale=480:270:force_original_aspect_ratio=decrease,pad=480:270:(ow-iw)/2:(oh-ih)/2:color=black''
         else ''scale=270:480'')
      else ''scale=480:270'')"

text \<open>
  \<open>_verify_segment\<close>: the file exists with at least 1024 bytes, the probe exits with 0
  and prints one number, and that duration is above 0.01.
\<close>

definition verify_segment :: "world \<Rightarrow> path \<Rightarrow> state \<Rightarrow> bool \<times> state" where
  "verify_segment w segment_path st =
     (if \<not> file_exists st segment_path \<or> size_of st segment_path < 1024 then (False, st)
      else
        let (r, st) = run_command w (Probe_Duration segment_path) st in
        if exit_code r \<noteq> 0 then (False, st)
        else
          (case stdout r of
             [Integer n] \<Rightarrow> (\<not> of_int n \<le> (1/100 :: rat), st)
           | [Decimal d] \<Rightarrow> (\<not> d \<le> 1/100, st)
           | _ \<Rightarrow> (False, st)))"

text \<open>
  \<open>_overlay_timestamp\<close> writes \<open>ts_<name>\<close> beside the segment and returns its path,
  or \<open>None\<close> when the font is missing or the command fails; a failed output is
  unlinked.
\<close>

definition overlay_output :: "path \<Rightarrow> path" where
  "overlay_output segment_path = with_name segment_path (''ts_'' @ name_of segment_path)"

definition overlay_timestamp :: "world \<Rightarrow> path \<Rightarrow> rat \<Rightarrow> state \<Rightarrow> path option \<times> state" where
  "overlay_timestamp w segment_path start_sec st =
     (let timestamp_text = replace_char (CHR '':'') [CHR 0x5C, CHR '':''] (format_duration start_sec);
          output_path = overlay_output segment_path
      in
      if \<not> font_is_file w then (None, st)
      else
        let (r, st) = run_command w (Overlay_Text segment_path timestamp_text output_path) st in
        if exit_code r = 0 \<and> file_exists st output_path then (Some output_path, st)
        else (None, unlink output_path st))"

definition segment_path_of :: "processor \<Rightarrow> nat \<Rightarrow> rat \<Rightarrow> path" where
  "segment_path_of self segment_index start_sec =
     temp_dir self @
       [base_filename self @ ''_start-'' @
        replace_char (CHR '':'') ''.'' (format_duration start_sec) @
        ''_seg-'' @ zero_pad 2 segment_index @ ''.mp4'']"

text \<open>\<open>cut_duration\<close>, the length of the clip that starts at \<open>start_sec\<close>.\<close>

definition cut_duration :: "processor \<Rightarrow> rat \<Rightarrow> rat" where
  "cut_duration self start_sec =
     min (SEGMENT_DURATION (self_config self)) (md_duration self - start_sec)"

text \<open>The variables of the loop of \<open>_generate_segments\<close>.\<close>

record segments_acc =
  valid_segment_paths :: "path list"
  timestamped_paths_for_sheet :: "path list"
  segments_generated :: nat

text \<open>
  One pass of the loop, for the cut point \<open>start_sec\<close> with \<open>segment_index = i + 1\<close>.
  The two \<open>continue\<close> statements leave the variables and the state as they are.
\<close>

definition process_cut_point ::
  "world \<Rightarrow> processor \<Rightarrow> string \<Rightarrow> nat \<times> rat \<Rightarrow> segments_acc \<times> state \<Rightarrow> segments_acc \<times> state" where
  "process_cut_point w self vf_filter cp acc_st =
     (let (segment_index, start_sec) = cp;
          (acc, st) = acc_st;
          max_duration = md_duration self
      in
      if max_duration \<le> start_sec then (acc, st)
      else if cut_duration self start_sec \<le> 1/100 then (acc, st)
      else
        let segment_path = segment_path_of self segment_index start_sec;
            (r, st) = run_command w
                        (Extract_Segment (video_path self) start_sec
                           (py_round 3 (cut_duration self start_sec)) vf_filter segment_path) st;
            (verified, st) = (if exit_code r = 0 then verify_segment w segment_path st
                              else (False, st))
        in
        if verified then
          let final_segment_path_for_preview = segment_path;
              path_for_sheet = segment_path;
              ((final_segment_path_for_preview, path_for_sheet), st) =
                (if TIMESTAMPS_MODE (self_config self) \<in> {1, 2} then
                   (case overlay_timestamp w segment_path start_sec st of
                      (Some overlay_path, st) \<Rightarrow>
                        if TIMESTAMPS_MODE (self_config self) = 1
                        then ((overlay_path, overlay_path), st)
                        else ((final_segment_path_for_preview, overlay_path), st)
                    | (None, st) \<Rightarrow> ((final_segment_path_for_preview, segment_path), st))
                 else ((final_segment_path_for_preview, path_for_sheet), st))
          in (acc\<lparr>valid_segment_paths := valid_segment_paths acc @ [final_segment_path_for_preview],
                   timestamped_paths_for_sheet := timestamped_paths_for_sheet acc @ [path_for_sheet],
                   segments_generated := segments_generated acc + 1\<rparr>, st)
        else
          (acc, unlink (with_name segment_path (''ts_'' @ name_of segment_path))
                  (unlink segment_path st)))"

definition empty_acc :: segments_acc where
  "empty_acc = \<lparr>valid_segment_paths = [], timestamped_paths_for_sheet = [],
                 segments_generated = 0\<rparr>"

text \<open>
  \<open>_generate_segments\<close>: the pair of lists it returns, and the state afterwards.
  \<open>enumerate\<close> counts from 0 and the loop uses \<open>i + 1\<close>, so the pairs start at 1.
\<close>

definition generate_segments ::
  "world \<Rightarrow> processor \<Rightarrow> state \<Rightarrow> (path list \<times> path list) \<times> state" where
  "generate_segments w self st =
     (if \<not> file_exists st (video_path self) then (([], []), st)
      else
        let (acc, st) = fold (process_cut_point w self (get_vf_filter self))
                          (List.enumerate 1 (cut_points_sec self)) (empty_acc, st)
        in
        if segments_generated acc = 0 \<and> 0 < length (cut_points_sec self) then (([], []), st)
        else ((valid_segment_paths acc, timestamped_paths_for_sheet acc), st))"

text \<open>
  \<open>extracted_at self st p start_sec\<close>: the path \<open>p\<close> is a clip that the transcoder was
  asked to cut from the video at \<open>start_sec\<close> with the length \<open>cut_duration\<close>, or the
  overlaid variant of that clip.
\<close>

definition extracted_at :: "processor \<Rightarrow> state \<Rightarrow> path \<Rightarrow> rat \<Rightarrow> bool" where
  "extracted_at self st p start_sec \<longleftrightarrow>
     (\<exists>i. Extract_Segment (video_path self) start_sec
             (py_round 3 (cut_duration self start_sec)) (get_vf_filter self)
             (segment_path_of self i start_sec) \<in> set (calls st) \<and>
          (p = segment_path_of self i start_sec \<or>
           p = overlay_output (segment_path_of self i start_sec)))"

definition accepted_paths_ok :: "processor \<Rightarrow> segments_acc \<Rightarrow> state \<Rightarrow> bool" where
  "accepted_paths_ok self acc st \<longleftrightarrow>
     (\<forall>p \<in> set (valid_segment_paths acc) \<union> set (timestamped_paths_for_sheet acc).
        \<exists>start_sec \<in> set (cut_points_sec self).
          extracted_at self st p start_sec \<and> start_sec < md_duration self \<and>
          1/100 < cut_duration self start_sec)"

section \<open>Where the outputs go: \<open>VideoProcessor.__init__\<close>\<close>







section \<open>Existing outputs: \<open>_check_existing_outputs\<close>\<close>









section \<open>Metadata: \<open>_get_metadata\<close>\<close>


section \<open>The animated preview: \<open>_write_concat_file\<close>, \<open>_run_ffmpeg_concat\<close>, \<open>_generate_webp_preview\<close>\<close>





section \<open>The animated sheet: \<open>_create_info_image\<close>, \<open>_stack_videos\<close>, \<open>_generate_webp_preview_sheet\<close>\<close>












section \<open>The static sheet: \<open>_extract_segment_frames\<close>, \<open>_generate_image_preview_sheet\<close>\<close>











section \<open>The workflow: \<open>VideoProcessor.run\<close>\<close>







section \<open>Concrete runs\<close>

text \<open>
  A landscape video of 120 seconds at \<open>in/a/a.mp4\<close> with one cut point at 6 seconds,
  the shipped configuration, and worlds in which the extraction and its verification
  succeed: in the first the font of the overlay is missing, in the second the overlay
  succeeds.
\<close>

definition example_processor :: processor where
  "example_processor =
     \<lparr> original_video_path = [''in'', ''a.mp4''], video_path = [''in'', ''a'', ''a.mp4''],
       self_config = default_config, base_filename = ''a'', output_dir = [''in'', ''a''],
       temp_dir = [''in'', ''a'', ''a-temp''], md_duration = 120, md_fps = 30,
       is_vertical = False, cut_points_sec = [6], segment_files = [],
       timestamped_segment_files = [], segment_frame_files = [] \<rparr>"

definition example_state :: state where
  "example_state =
     \<lparr> files = (\<lambda>p. if p = [''in'', ''a'', ''a.mp4''] then Some 100000 else None),
       calls = [] \<rparr>"

definition example_respond :: "command \<Rightarrow> reply" where
  "example_respond c =
     (case c of
        Extract_Segment _ _ _ _ _ \<Rightarrow> \<lparr>exit_code = 0, stdout = [], output_size = Some 5000\<rparr>
      | Probe_Duration _ \<Rightarrow> \<lparr>exit_code = 0, stdout = [Decimal (3/2)], output_size = None\<rparr>
      | Overlay_Text _ _ _ \<Rightarrow> \<lparr>exit_code = 0, stdout = [], output_size = Some 6000\<rparr>
      | _ \<Rightarrow> \<lparr>exit_code = 1, stdout = [], output_size = None\<rparr>)"

definition example_streams :: stream_info where
  "example_streams =
     \<lparr> has_video_stream = True, format_duration_seconds = Some 120, stream_width = 1920,
       stream_height = 1080, video_codec = ''H264'', frame_rate = Ratio 30 1 \<rparr>"

definition overlay_world :: world where
  "overlay_world =
     \<lparr> respond = example_respond, font_is_file = True, prompt_answer = (\<lambda>_. Some ''yes''),
       unlink_fails = (\<lambda>_. False), mkdir_fails = (\<lambda>_. False), move_fails = False,
       write_fails = (\<lambda>_. False), save_fails = (\<lambda>_. False),
       streams_json = Some example_streams, image_size = (\<lambda>_. Some (480, 270)),
       info_image_fails = False \<rparr>"

definition font_missing_world :: world where
  "font_missing_world = overlay_world\<lparr>font_is_file := False\<rparr>"








section \<open>The cut points\<close>

text \<open>
  C1. The planner is to return exactly \<open>N\<close> strictly increasing fractions, none of them
  blacklisted. It does not, on two inputs. Asked for one cut point of a video of 120
  seconds, it returns the two boundaries 0.05 and 0.98: the final test only refuses fewer
  points than required. Asked for two with 0.05 and 0.06 blacklisted, it moves the start
  to \<open>0.05 + 0.01\<close>, a float just above 0.06 that the blacklist does not hold, and adds
  its rounding to three decimals, the blacklisted 0.06.
\<close>

theorem generate_cut_points_slips:
  "generate_cut_points (default_config\<lparr>NUM_OF_SEGMENTS := 1\<rparr>) 120 True =
     Inr [fl (1/20), fl (49/50)] \<and>
   fl (1/20) < fl (49/50) \<and>
   generate_cut_points
     (default_config\<lparr>NUM_OF_SEGMENTS := 2,
                     BLACKLISTED_CUT_POINTS := [fl (1/20), fl (3/50)]\<rparr>) 120 True =
     Inr [fl (3/50), fl (97/100)] \<and>
   fl (fl (1/20) + fl (1/100)) \<noteq> fl (3/50) \<and>
   round_float 3 (fl (fl (1/20) + fl (1/100))) = fl (3/50)"
  by code_simp

section \<open>Properties of the segments\<close>

lemma py_round_upper: "py_round 3 x \<le> x + 1/2000"
proof -
  define s where "s = x * 10 ^ 3"
  define n where "n = \<lfloor>s\<rfloor>"
  define r where "r = s - of_int n"
  have r: "0 \<le> r" "r < 1"
    unfolding r_def n_def by linarith+
  have "of_int (if r < 1/2 then n else if 1/2 < r then n + 1
                 else if even n then n else n + 1) \<le> s + 1/2"
    using r unfolding r_def by (auto split: if_splits)
  then have "of_int (if r < 1/2 then n else if 1/2 < r then n + 1
                 else if even n then n else n + 1) / 10 ^ 3 \<le> (s + 1/2) / 10 ^ 3"
    by (simp add: divide_right_mono)
  moreover have "py_round 3 x = of_int (if r < 1/2 then n else if 1/2 < r then n + 1
                 else if even n then n else n + 1) / 10 ^ 3"
    unfolding py_round_def Let_def r_def n_def s_def ..
  moreover have "(s + 1/2) / 10 ^ 3 = x + 1/2000"
    unfolding s_def by (simp add: field_simps)
  ultimately show ?thesis by simp
qed

lemma calls_run_command: "calls (snd (run_command w c st)) = calls st @ [c]"
  by (simp add: run_command_def Let_def)


lemma fst_run_command: "fst (run_command w c st) = respond w c"
  by (simp add: run_command_def Let_def)

lemma calls_unlink: "calls (unlink p st) = calls st"
  by (simp add: unlink_def)


lemma verify_segment_calls:
  "set (calls st) \<subseteq> set (calls (snd (verify_segment w p st)))"
  by (auto simp: verify_segment_def calls_run_command Let_def split_beta
      split: list.splits token.splits)



lemma overlay_timestamp_calls:
  "set (calls st) \<subseteq> set (calls (snd (overlay_timestamp w p s st)))"
  by (auto simp: overlay_timestamp_def calls_run_command calls_unlink Let_def split_beta)

lemma overlay_timestamp_Some:
  "fst (overlay_timestamp w p s st) = Some q \<Longrightarrow>
     q = overlay_output p \<and> file_exists (snd (overlay_timestamp w p s st)) q"
  by (auto simp: overlay_timestamp_def Let_def split_beta split: if_splits)




lemma process_cut_point_skip:
  "md_duration self \<le> start_sec \<or> cut_duration self start_sec \<le> 1/100 \<Longrightarrow>
     process_cut_point w self vf (i, start_sec) (acc, st) = (acc, st)"
  by (auto simp: process_cut_point_def)

lemma process_cut_point_calls:
  "set (calls st) \<subseteq> set (calls (snd (process_cut_point w self vf (i, s) (acc, st))))"
proof -
  let ?seg = "segment_path_of self i s"
  let ?c = "Extract_Segment (video_path self) s (py_round 3 (cut_duration self s)) vf ?seg"
  let ?st1 = "snd (run_command w ?c st)"
  have 1: "set (calls st) \<subseteq> set (calls ?st1)"
    by (simp add: calls_run_command subset_insertI2)
  note 2 = verify_segment_calls[of ?st1 w ?seg]
  note 3 = overlay_timestamp_calls[of "snd (verify_segment w ?seg ?st1)" w ?seg s]
  show ?thesis
    using 1 2 3
    by (auto simp: process_cut_point_def Let_def split_beta calls_unlink
        split: option.splits prod.splits)
qed

lemma overlay_timestamp_SomeD:
  "overlay_timestamp w p s st = (Some q, st') \<Longrightarrow> q = overlay_output p"
  using overlay_timestamp_Some[of w p s st q] by simp

lemma process_cut_point_paths:
  assumes "process_cut_point w self vf (i, s) (acc, st) = (acc', st')"
  shows "(valid_segment_paths acc' = valid_segment_paths acc \<and>
          timestamped_paths_for_sheet acc' = timestamped_paths_for_sheet acc) \<or>
         (s < md_duration self \<and> 1/100 < cut_duration self s \<and>
          Extract_Segment (video_path self) s (py_round 3 (cut_duration self s)) vf
            (segment_path_of self i s) \<in> set (calls st') \<and>
          (\<exists>a b. valid_segment_paths acc' = valid_segment_paths acc @ [a] \<and>
                 timestamped_paths_for_sheet acc' = timestamped_paths_for_sheet acc @ [b] \<and>
                 a \<in> {segment_path_of self i s, overlay_output (segment_path_of self i s)} \<and>
                 b \<in> {segment_path_of self i s, overlay_output (segment_path_of self i s)}))"
proof (cases "md_duration self \<le> s \<or> cut_duration self s \<le> 1/100")
  case True
  then show ?thesis using assms process_cut_point_skip[OF True] by simp
next
  case False
  let ?seg = "segment_path_of self i s"
  let ?c = "Extract_Segment (video_path self) s (py_round 3 (cut_duration self s)) vf ?seg"
  let ?st1 = "snd (run_command w ?c st)"
  have "?c \<in> set (calls ?st1)"
    by (simp add: calls_run_command)
  moreover have "set (calls ?st1) \<subseteq> set (calls st')"
  proof -
    note 2 = verify_segment_calls[of ?st1 w ?seg]
    note 3 = overlay_timestamp_calls[of "snd (verify_segment w ?seg ?st1)" w ?seg s]
    show ?thesis
      using assms False 2 3
      by (auto simp: process_cut_point_def Let_def split_beta calls_unlink
          split: option.splits prod.splits if_splits)
  qed
  ultimately have c: "?c \<in> set (calls st')" by blast
  have sh: "(valid_segment_paths acc' = valid_segment_paths acc \<and>
          timestamped_paths_for_sheet acc' = timestamped_paths_for_sheet acc) \<or>
      (\<exists>a b. valid_segment_paths acc' = valid_segment_paths acc @ [a] \<and>
                 timestamped_paths_for_sheet acc' = timestamped_paths_for_sheet acc @ [b] \<and>
                 a \<in> {?seg, overlay_output ?seg} \<and> b \<in> {?seg, overlay_output ?seg})"
    using assms False
    by (auto simp: process_cut_point_def Let_def split_beta
        split: option.splits prod.splits if_splits dest: overlay_timestamp_SomeD)
  show ?thesis using False c sh by auto
qed

lemma extracted_at_mono:
  "set (calls st) \<subseteq> set (calls st') \<Longrightarrow> extracted_at self st p s \<Longrightarrow> extracted_at self st' p s"
  unfolding extracted_at_def by blast

lemma accepted_paths_ok_step:
  assumes inv: "accepted_paths_ok self acc st" and s: "s \<in> set (cut_points_sec self)"
    and r: "process_cut_point w self (get_vf_filter self) (i, s) (acc, st) = (acc', st')"
  shows "accepted_paths_ok self acc' st'"
proof -
  have m: "set (calls st) \<subseteq> set (calls st')"
    using process_cut_point_calls[of st w self "get_vf_filter self" i s acc] r by simp
  have old: "\<forall>p \<in> set (valid_segment_paths acc) \<union> set (timestamped_paths_for_sheet acc).
        \<exists>start_sec \<in> set (cut_points_sec self).
          extracted_at self st' p start_sec \<and> start_sec < md_duration self \<and>
          1/100 < cut_duration self start_sec"
    using inv extracted_at_mono[OF m] unfolding accepted_paths_ok_def by blast
  from process_cut_point_paths[OF r] show ?thesis
  proof
    assume "valid_segment_paths acc' = valid_segment_paths acc \<and>
          timestamped_paths_for_sheet acc' = timestamped_paths_for_sheet acc"
    then show ?thesis using old unfolding accepted_paths_ok_def by simp
  next
    assume a: "s < md_duration self \<and> 1/100 < cut_duration self s \<and>
          Extract_Segment (video_path self) s (py_round 3 (cut_duration self s)) (get_vf_filter self)
            (segment_path_of self i s) \<in> set (calls st') \<and>
          (\<exists>a b. valid_segment_paths acc' = valid_segment_paths acc @ [a] \<and>
                 timestamped_paths_for_sheet acc' = timestamped_paths_for_sheet acc @ [b] \<and>
                 a \<in> {segment_path_of self i s, overlay_output (segment_path_of self i s)} \<and>
                 b \<in> {segment_path_of self i s, overlay_output (segment_path_of self i s)})"
    then obtain a b where ab: "valid_segment_paths acc' = valid_segment_paths acc @ [a]"
      "timestamped_paths_for_sheet acc' = timestamped_paths_for_sheet acc @ [b]"
      "a \<in> {segment_path_of self i s, overlay_output (segment_path_of self i s)}"
      "b \<in> {segment_path_of self i s, overlay_output (segment_path_of self i s)}"
      by blast
    have "extracted_at self st' a s" "extracted_at self st' b s"
      using a ab(3,4) unfolding extracted_at_def by blast+
    then have new: "\<forall>p \<in> {a, b}. \<exists>start_sec \<in> set (cut_points_sec self).
          extracted_at self st' p start_sec \<and> start_sec < md_duration self \<and>
          1/100 < cut_duration self start_sec"
      using a s by blast
    show ?thesis
      unfolding accepted_paths_ok_def ab(1,2) using old new by auto
  qed
qed

lemma accepted_paths_ok_fold:
  assumes "accepted_paths_ok self acc st" and "\<forall>(i, s) \<in> set xs. s \<in> set (cut_points_sec self)"
  shows "accepted_paths_ok self
           (fst (fold (process_cut_point w self (get_vf_filter self)) xs (acc, st)))
           (snd (fold (process_cut_point w self (get_vf_filter self)) xs (acc, st)))"
  using assms
proof (induction xs arbitrary: acc st)
  case Nil
  then show ?case by simp
next
  case (Cons x xs)
  obtain i s where x: "x = (i, s)" by (cases x)
  obtain acc' st' where r: "process_cut_point w self (get_vf_filter self) (i, s) (acc, st) = (acc', st')"
    by (cases "process_cut_point w self (get_vf_filter self) (i, s) (acc, st)")
  have s: "s \<in> set (cut_points_sec self)" using Cons.prems(2) x by simp
  have "accepted_paths_ok self acc' st'"
    by (rule accepted_paths_ok_step[OF Cons.prems(1) s r])
  moreover have "\<forall>(i, s) \<in> set xs. s \<in> set (cut_points_sec self)"
    using Cons.prems(2) by simp
  ultimately show ?case
    using Cons.IH[of acc' st'] by (simp add: x r)
qed

lemma enumerate_snd: "\<forall>(i, s) \<in> set (List.enumerate n xs). s \<in> set xs"
  by (auto simp: enumerate_eq_zip dest: set_zip_rightD)

lemma generate_segments_accepted:
  assumes "generate_segments w self st = ((valid, sheet), st')"
  shows "\<forall>p \<in> set valid \<union> set sheet.
        \<exists>start_sec \<in> set (cut_points_sec self).
          extracted_at self st' p start_sec \<and> start_sec < md_duration self \<and>
          1/100 < cut_duration self start_sec"
proof -
  let ?r = "fold (process_cut_point w self (get_vf_filter self))
              (List.enumerate 1 (cut_points_sec self)) (empty_acc, st)"
  have "accepted_paths_ok self empty_acc st"
    by (simp add: accepted_paths_ok_def empty_acc_def)
  from accepted_paths_ok_fold[OF this enumerate_snd, of w 1]
  have ok: "accepted_paths_ok self (fst ?r) (snd ?r)" .
  show ?thesis
    using assms ok
    by (auto simp: generate_segments_def Let_def split_beta accepted_paths_ok_def
        split: if_splits)
qed

lemma cut_duration_bound:
  "s + cut_duration self s \<le> md_duration self"
  "s + py_round 3 (cut_duration self s) \<le> md_duration self + 1/2000"
proof -
  show a: "s + cut_duration self s \<le> md_duration self"
    by (simp add: cut_duration_def min_def)
  show "s + py_round 3 (cut_duration self s) \<le> md_duration self + 1/2000"
    using a py_round_upper[of "cut_duration self s"] by linarith
qed

text \<open>
  C7. Every path that \<open>_generate_segments\<close> returns is a clip cut at one of the cut
  points \<open>start_sec\<close> (or its overlaid variant) with
  \<open>start_sec < duration\<close>, the length
  \<open>min(SEGMENT_DURATION, duration - start_sec)\<close> above the threshold 0.01, and
  \<open>start_sec + length \<le> duration\<close>; the length on the command line, rounded to three
  decimals, exceeds the video by at most 0.0005 seconds. A cut point at or beyond the
  duration, or one whose clamped length is not above the threshold, is skipped: the pass
  of the loop changes nothing and the loop goes on.
\<close>

theorem accepted_segments_within_video:
  assumes "generate_segments w self st = ((valid, sheet), st')"
  shows "(\<forall>p \<in> set valid \<union> set sheet.
           \<exists>start_sec \<in> set (cut_points_sec self).
             extracted_at self st' p start_sec \<and>
             start_sec < md_duration self \<and>
             cut_duration self start_sec =
               min (SEGMENT_DURATION (self_config self)) (md_duration self - start_sec) \<and>
             1/100 < cut_duration self start_sec \<and>
             start_sec + cut_duration self start_sec \<le> md_duration self \<and>
             start_sec + py_round 3 (cut_duration self start_sec) \<le> md_duration self + 1/2000) \<and>
         (\<forall>i start_sec acc s.
            md_duration self \<le> start_sec \<or> cut_duration self start_sec \<le> 1/100 \<longrightarrow>
            process_cut_point w self (get_vf_filter self) (i, start_sec) (acc, s) = (acc, s))"
proof (intro conjI ballI allI impI)
  fix p assume "p \<in> set valid \<union> set sheet"
  with generate_segments_accepted[OF assms] obtain start_sec where
    s: "start_sec \<in> set (cut_points_sec self)" "extracted_at self st' p start_sec"
       "start_sec < md_duration self" "1/100 < cut_duration self start_sec"
    by blast
  have "cut_duration self start_sec =
               min (SEGMENT_DURATION (self_config self)) (md_duration self - start_sec)"
    by (simp add: cut_duration_def)
  with s cut_duration_bound[of start_sec self]
  show "\<exists>start_sec \<in> set (cut_points_sec self).
             extracted_at self st' p start_sec \<and>
             start_sec < md_duration self \<and>
             cut_duration self start_sec =
               min (SEGMENT_DURATION (self_config self)) (md_duration self - start_sec) \<and>
             1/100 < cut_duration self start_sec \<and>
             start_sec + cut_duration self start_sec \<le> md_duration self \<and>
             start_sec + py_round 3 (cut_duration self start_sec) \<le> md_duration self + 1/2000"
    by blast
next
  fix i start_sec acc s
  assume "md_duration self \<le> start_sec \<or> cut_duration self start_sec \<le> 1/100"
  then show "process_cut_point w self (get_vf_filter self) (i, start_sec) (acc, s) = (acc, s)"
    by (rule process_cut_point_skip)
qed

lemma process_cut_point_verified:
  assumes ns: "start_sec < md_duration self" "1/100 < cut_duration self start_sec"
    and mode: "TIMESTAMPS_MODE (self_config self) \<in> {1, 2}"
    and seg: "seg = segment_path_of self i start_sec"
    and ex: "run_command w (Extract_Segment (video_path self) start_sec
               (py_round 3 (cut_duration self start_sec)) vf seg) st = (r, st1)"
            "exit_code r = 0"
    and ver: "verify_segment w seg st1 = (True, st2)"
    and ov: "overlay_timestamp w seg start_sec st2 = (res, st3)"
  shows "process_cut_point w self vf (i, start_sec) (acc, st) =
      (acc\<lparr>valid_segment_paths := valid_segment_paths acc @
               [case res of None \<Rightarrow> seg
                | Some p \<Rightarrow> if TIMESTAMPS_MODE (self_config self) = 1 then p else seg],
            timestamped_paths_for_sheet := timestamped_paths_for_sheet acc @
               [case res of None \<Rightarrow> seg | Some p \<Rightarrow> p],
            segments_generated := segments_generated acc + 1\<rparr>, st3)"
  using ns mode ex ver ov unfolding seg
  by (auto simp: process_cut_point_def Let_def split: option.splits)


lemma example_numbers:
  "(6::rat) < md_duration example_processor"
  "1/100 < cut_duration example_processor 6"
  "TIMESTAMPS_MODE (self_config example_processor) \<in> {1, 2}"
  "TIMESTAMPS_MODE (self_config example_processor) \<noteq> 1"
  "cut_points_sec example_processor = [6]"
  by (simp_all add: example_processor_def cut_duration_def default_config_def)

lemma example_extract:
  "exit_code (fst (run_command w
     (Extract_Segment v s t vf seg) st)) = 0" if "respond w = example_respond"
  using that by (simp add: run_command_def Let_def example_respond_def)

lemma example_verify:
  assumes "respond w = example_respond"
  shows "fst (verify_segment w seg (snd (run_command w (Extract_Segment v s t vf seg) st)))"
  using assms
  by (simp add: verify_segment_def run_command_def Let_def example_respond_def
      file_exists_def size_of_def)

lemma example_overlay_fails:
  "fst (overlay_timestamp font_missing_world seg s st) = None"
  by (simp add: overlay_timestamp_def font_missing_world_def overlay_world_def Let_def)


text \<open>The witness of C7: the run with one cut point at 6 seconds.\<close>

theorem accepted_segments_within_video_witness:
  "\<exists>start_sec \<in> set (cut_points_sec example_processor).
     extracted_at example_processor
       (snd (generate_segments font_missing_world example_processor example_state))
       (segment_path_of example_processor (Suc 0) 6) start_sec \<and>
     start_sec < md_duration example_processor \<and>
     cut_duration example_processor start_sec =
       min (SEGMENT_DURATION (self_config example_processor))
         (md_duration example_processor - start_sec) \<and>
     1/100 < cut_duration example_processor start_sec \<and>
     start_sec + cut_duration example_processor start_sec \<le> md_duration example_processor \<and>
     start_sec + py_round 3 (cut_duration example_processor start_sec)
       \<le> md_duration example_processor + 1/2000"
proof -
  let ?w = font_missing_world and ?p = example_processor and ?s = example_state
  let ?seg = "segment_path_of ?p (Suc 0) 6"
  let ?c = "Extract_Segment (video_path ?p) 6 (py_round 3 (cut_duration ?p 6))
              (get_vf_filter ?p) ?seg"
  let ?st1 = "snd (run_command ?w ?c ?s)"
  let ?st2 = "snd (verify_segment ?w ?seg ?st1)"
  have rw: "respond ?w = example_respond"
    by (simp add: font_missing_world_def overlay_world_def)
  have ex: "run_command ?w ?c ?s = (fst (run_command ?w ?c ?s), ?st1)" by simp
  have ver: "verify_segment ?w ?seg ?st1 = (True, ?st2)"
    using example_verify[OF rw, of ?seg "video_path ?p" 6 _ _ ?s]
    by (metis prod.collapse)
  have ov: "overlay_timestamp ?w ?seg 6 ?st2 = (None, snd (overlay_timestamp ?w ?seg 6 ?st2))"
    using example_overlay_fails[of ?seg 6 ?st2] by (metis prod.collapse)
  note step = process_cut_point_verified[OF example_numbers(1,2,3) refl ex
      example_extract[OF rw] ver ov, of empty_acc, unfolded empty_acc_def]
  have vid: "file_exists ?s (video_path ?p)"
    by (simp add: file_exists_def example_state_def example_processor_def)
  have "fst (fst (generate_segments ?w ?p ?s)) = [?seg]"
    unfolding generate_segments_def
    by (simp add: vid example_numbers(5) enumerate_eq_zip step empty_acc_def Let_def)
  then have m: "?seg \<in> set (fst (fst (generate_segments ?w ?p ?s)))
                  \<union> set (snd (fst (generate_segments ?w ?p ?s)))"
    by simp
  have g: "generate_segments ?w ?p ?s =
             ((fst (fst (generate_segments ?w ?p ?s)), snd (fst (generate_segments ?w ?p ?s))),
              snd (generate_segments ?w ?p ?s))"
    by simp
  from accepted_segments_within_video[OF g] m show ?thesis by blast
qed


section \<open>Output paths and the check for existing outputs\<close>



















section \<open>Skipping, moving and failing runs\<close>



























end
